theory Spec2Isabelle
  imports Main "HOL-Library.Option_ord" "HOL-Library.Multiset"
begin

section \<open>Data model\<close>

text \<open>
  The event controller of the academic platform works on one MongoDB collection of
  \<open>Event\<close> documents (\<open>models/event.js\<close>) and looks users, subjects, grades and
  assignments up in four other collections.

  Identifiers (\<open>ObjectId\<close>) are natural numbers, dates are milliseconds as integers.
  A field that JavaScript may leave \<open>undefined\<close> is an \<open>option\<close>; a request carries
  for every key either nothing or a value of the documented type (an explicit JSON
  \<open>null\<close> and ill-typed values, which Mongoose refuses with a cast error, are outside
  the model).
\<close>

type_synonym oid = nat
type_synonym date = int

text \<open>The projection \<open>'firstName lastName email'\<close> that \<open>populate\<close> selects from a User.\<close>

record user =
  firstName :: string
  lastName :: string
  email :: string

text \<open>The schema of \<open>models/event.js\<close>; \<open>doc_id\<close> is the document's \<open>_id\<close>.\<close>

record event =
  doc_id :: oid
  name :: "string option"
  type :: "string option"
  description :: "string option"
  date :: "date option"
  user_id :: "oid option"
  related_id :: "oid option"
  relatedModel :: "string option"
  created_at :: date
  updated_at :: date
  time :: "string option"
  duration :: "int option"

text \<open>\<open>req.body\<close>: the keys that \<open>createEvent\<close>, \<open>updateEvent\<close> and \<open>scheduleMeeting\<close> read.\<close>

record body =
  req_name :: "string option"
  req_type :: "string option"
  req_description :: "string option"
  req_date :: "date option"
  req_user_id :: "oid option"
  req_related_id :: "oid option"
  req_relatedModel :: "string option"
  req_time :: "string option"
  req_duration :: "int option"
  req_advisorId :: "oid option"
  req_studentId :: "oid option"

text \<open>\<open>req.query\<close> of \<open>getUserEvents\<close>: both values arrive as strings.\<close>

record query =
  q_type :: "string option"
  q_past :: "string option"

text \<open>
  What the controller does not own: the four collaborating collections, the clock
  (\<open>Date.now()\<close>, \<open>new Date()\<close>) and the persistence engine's verdict on the insertion
  of a document (\<open>insert_ok\<close>: a write that the backend refuses makes \<open>save()\<close> throw).
\<close>

record env =
  users :: "oid \<rightharpoonup> user"
  subjects :: "oid set"
  grades :: "oid set"
  assignments :: "oid set"
  now :: date
  insert_ok :: "event \<Rightarrow> bool"

text \<open>
  The event collection in its natural (insertion) order, and the source of fresh
  \<open>_id\<close> values that \<open>new Event(...)\<close> draws from.
\<close>

record store =
  events :: "event list"
  next_id :: oid

text \<open>The JSON payloads the handlers send, and the response with its HTTP status.\<close>

datatype ref = Ref "oid option" | Populated "user option"

record item =
  doc :: event
  user_ref :: ref
  related_ref :: ref

datatype json =
    Message string
  | ErrorMessage string
  | EventDoc event
  | Events "item list"
  | MeetingPair event event
  | Canceled string nat

type_synonym response = "nat \<times> json"

datatype error = ValidationError | PersistenceFailure

section \<open>Mongoose operations used by the controller\<close>

text \<open>
  JavaScript truthiness of a string that may be undefined: the empty string is falsy.
  An identifier is truthy exactly when it is there.
\<close>

definition truthy :: "string option \<Rightarrow> bool" where
  "truthy v = (case v of None \<Rightarrow> False | Some s \<Rightarrow> s \<noteq> [])"

text \<open>
  \<open>findById\<close> on the collaborating collections: the user or nothing (nothing also for
  an undefined identifier); for the other three only whether a document was found.
\<close>

definition User_findById :: "env \<Rightarrow> oid option \<Rightarrow> user option" where
  "User_findById env i = (case i of None \<Rightarrow> None | Some k \<Rightarrow> users env k)"

definition Subject_findById :: "env \<Rightarrow> oid \<Rightarrow> bool" where
  "Subject_findById env i = (i \<in> subjects env)"

definition Grade_findById :: "env \<Rightarrow> oid \<Rightarrow> bool" where
  "Grade_findById env i = (i \<in> grades env)"

definition Assignment_findById :: "env \<Rightarrow> oid \<Rightarrow> bool" where
  "Assignment_findById env i = (i \<in> assignments env)"

text \<open>The \<open>enum\<close> lists of the schema.\<close>

definition event_types :: "string list" where
  "event_types = [''Assignment'', ''Exam'', ''Reminder'', ''Meeting'']"

definition related_models :: "string list" where
  "related_models = [''Subject'', ''Grade'', ''Assignment'', ''User'']"

text \<open>
  \<open>new Event({...})\<close>: the constructor assigns a fresh \<open>_id\<close> and the defaults
  \<open>created_at = updated_at = Date.now()\<close>.
\<close>

definition new_Event ::
  "env \<Rightarrow> store \<Rightarrow> string option \<Rightarrow> string option \<Rightarrow> string option \<Rightarrow> date option \<Rightarrow>
   oid option \<Rightarrow> oid option \<Rightarrow> string option \<Rightarrow> string option \<Rightarrow> int option \<Rightarrow> event \<times> store" where
  "new_Event env s nm ty de da ui ri rm ti du =
     (\<lparr>doc_id = next_id s, name = nm, type = ty, description = de, date = da,
       user_id = ui, related_id = ri, relatedModel = rm,
       created_at = now env, updated_at = now env, time = ti, duration = du\<rparr>,
      s\<lparr>next_id := Suc (next_id s)\<rparr>)"

text \<open>
  Schema validation run by \<open>save()\<close>: \<open>name\<close>, \<open>type\<close>, \<open>date\<close> and \<open>user_id\<close> are
  \<open>required\<close> (a required string must be non-empty), \<open>type\<close> and \<open>relatedModel\<close> are
  restricted by their \<open>enum\<close>.
\<close>

definition validate :: "event \<Rightarrow> bool" where
  "validate e =
     ((case name e of None \<Rightarrow> False | Some n \<Rightarrow> n \<noteq> []) \<and>
      (case type e of None \<Rightarrow> False | Some t \<Rightarrow> t \<in> set event_types) \<and>
      date e \<noteq> None \<and>
      user_id e \<noteq> None \<and>
      (case relatedModel e of None \<Rightarrow> True | Some m \<Rightarrow> m \<in> set related_models))"

text \<open>\<open>doc.save()\<close> of a new document: validate, then insert; a failure throws.\<close>

definition save :: "env \<Rightarrow> event \<Rightarrow> store \<Rightarrow> (error + event) \<times> store" where
  "save env e s =
     (if \<not> validate e then (Inl ValidationError, s)
      else if \<not> insert_ok env e then (Inl PersistenceFailure, s)
      else (Inr e, s\<lparr>events := events s @ [e]\<rparr>))"

text \<open>
  Queries on the event collection. \<open>findById\<close> and \<open>findOne\<close> return the first matching
  document in natural order, or nothing; \<open>findByIdAndDelete\<close> removes the first document
  with the identifier, and nothing when there is none. A filter compares a field with
  the given value, and a value that is missing equals a field that is missing.
\<close>

definition findById :: "oid \<Rightarrow> event list \<Rightarrow> event option" where
  "findById i es = find (\<lambda>e. doc_id e = i) es"

definition findOne :: "(event \<Rightarrow> bool) \<Rightarrow> event list \<Rightarrow> event option" where
  "findOne flt es = find flt es"

fun findByIdAndDelete :: "oid \<Rightarrow> event list \<Rightarrow> event list" where
  "findByIdAndDelete i [] = []"
| "findByIdAndDelete i (e # es) = (if doc_id e = i then es else e # findByIdAndDelete i es)"

text \<open>
  Modelled from the spec: \<open>findByIdAndUpdate\<close> of Mongoose is not part of the sources;
  the specification says that update "persists only the supplied fields", so a key
  whose value is undefined leaves the stored field as it is. With \<open>{ new: true }\<close> the
  updated document is returned, and nothing when no document has the id.
\<close>

definition supplied :: "'a option \<Rightarrow> 'a option \<Rightarrow> 'a option" where
  "supplied new old = (case new of None \<Rightarrow> old | Some v \<Rightarrow> Some v)"

fun findByIdAndUpdate :: "oid \<Rightarrow> (event \<Rightarrow> event) \<Rightarrow> event list \<Rightarrow> event option \<times> event list" where
  "findByIdAndUpdate i upd [] = (None, [])"
| "findByIdAndUpdate i upd (e # es) =
     (if doc_id e = i then (Some (upd e), upd e # es)
      else (case findByIdAndUpdate i upd es of (r, es') \<Rightarrow> (r, e # es')))"

text \<open>
  \<open>populate\<close>: \<open>user_id\<close> is always replaced by the user it names (by null when there is
  none); \<open>related_id\<close> only when \<open>relatedModel === 'User'\<close> and \<open>related_id\<close> is set.
\<close>

definition populate :: "env \<Rightarrow> event \<Rightarrow> item" where
  "populate env e =
     \<lparr>doc = e,
      user_ref = Populated (User_findById env (user_id e)),
      related_ref =
        (if relatedModel e = Some ''User'' \<and> related_id e \<noteq> None
         then Populated (User_findById env (related_id e))
         else Ref (related_id e))\<rparr>"

section \<open>The controller\<close>

text \<open>
  The block "Validate related model if provided", which \<open>createEvent\<close> and
  \<open>updateEvent\<close> both contain: \<open>Some r\<close> is the early return with response \<open>r\<close>.
\<close>

definition not_found_unless :: "bool \<Rightarrow> string \<Rightarrow> response option" where
  "not_found_unless relatedEntity model =
     (if \<not> relatedEntity then Some (404, Message (model @ '' not found'')) else None)"

definition validate_related :: "env \<Rightarrow> oid option \<Rightarrow> string option \<Rightarrow> response option" where
  "validate_related env rid rmodel =
     (case rid of
        None \<Rightarrow> None
      | Some r \<Rightarrow>
         (case rmodel of
            None \<Rightarrow> None
          | Some m \<Rightarrow>
             if m = [] then None
             else if m = ''Subject'' then not_found_unless (Subject_findById env r) m
             else if m = ''Grade'' then not_found_unless (Grade_findById env r) m
             else if m = ''Assignment'' then not_found_unless (Assignment_findById env r) m
             else if m = ''User'' then not_found_unless (User_findById env (Some r) \<noteq> None) m
             else Some (400, Message ''Invalid related model'')))"

definition createEvent :: "env \<Rightarrow> body \<Rightarrow> store \<Rightarrow> response \<times> store" where
  "createEvent env b s =
     (case User_findById env (req_user_id b) of
        None \<Rightarrow> ((404, Message ''User not found''), s)
      | Some u \<Rightarrow>
         (case validate_related env (req_related_id b) (req_relatedModel b) of
            Some r \<Rightarrow> (r, s)
          | None \<Rightarrow>
             (case new_Event env s (req_name b) (req_type b) (req_description b) (req_date b)
                     (req_user_id b) (req_related_id b) (req_relatedModel b)
                     (req_time b) (req_duration b) of
                (newEvent, s1) \<Rightarrow>
                  (case save env newEvent s1 of
                     (Inl err, s2) \<Rightarrow> ((500, ErrorMessage ''Error creating event''), s2)
                   | (Inr savedEvent, s2) \<Rightarrow> ((201, EventDoc savedEvent), s2)))))"

text \<open>
  \<open>scheduleMeeting\<close>. The two \<open>save()\<close> calls run under \<open>Promise.all\<close>: both are started,
  the student's first; when one rejects the handler answers 500, and the other one
  still completes. The store returned is the one after both have settled.
\<close>

definition scheduleMeeting :: "env \<Rightarrow> body \<Rightarrow> store \<Rightarrow> response \<times> store" where
  "scheduleMeeting env b s =
     (let duration' = (case req_duration b of None \<Rightarrow> 30 | Some d \<Rightarrow> d);
          advisorId = req_advisorId b;
          studentId = req_studentId b;
          advisor = User_findById env advisorId;
          student = User_findById env studentId
      in if advisor = None then ((404, Message ''Advisor not found''), s)
         else if student = None then ((404, Message ''Student not found''), s)
         else
           (case new_Event env s (req_name b) (Some ''Meeting'') (req_description b) (req_date b)
                   studentId advisorId (Some ''User'') (req_time b) (Some duration') of
              (studentEvent, s1) \<Rightarrow>
           (case new_Event env s1 (req_name b) (Some ''Meeting'') (req_description b) (req_date b)
                   advisorId studentId (Some ''User'') (req_time b) (Some duration') of
              (advisorEvent, s2) \<Rightarrow>
           (case save env studentEvent s2 of
              (r1, s3) \<Rightarrow>
           (case save env advisorEvent s3 of
              (r2, s4) \<Rightarrow>
           (case (r1, r2) of
              (Inr savedStudentEvent, Inr savedAdvisorEvent) \<Rightarrow>
                 ((201, MeetingPair savedStudentEvent savedAdvisorEvent), s4)
            | _ \<Rightarrow> ((500, ErrorMessage ''Error scheduling meeting''), s4)))))))"

text \<open>The query that \<open>getUserEvents\<close> builds, as a predicate on documents.\<close>

definition user_events_query :: "oid \<Rightarrow> query \<Rightarrow> date \<Rightarrow> event \<Rightarrow> bool" where
  "user_events_query userId q currentDate e =
     (user_id e = Some userId \<and>
      (case date e of
         None \<Rightarrow> False
       | Some d \<Rightarrow> if q_past q = Some ''true'' then d < currentDate else d \<ge> currentDate) \<and>
      (if truthy (q_type q) then type e = q_type q else True))"

text \<open>\<open>.sort({ date: 1 })\<close> and \<open>.sort({ date: -1 })\<close>; a missing date sorts lowest.\<close>

definition sort_by_date :: "bool \<Rightarrow> event list \<Rightarrow> event list" where
  "sort_by_date descending es = (if descending then rev (sort_key date es) else sort_key date es)"

definition getUserEvents :: "env \<Rightarrow> oid \<Rightarrow> query \<Rightarrow> store \<Rightarrow> response" where
  "getUserEvents env userId q s =
     (case User_findById env (Some userId) of
        None \<Rightarrow> (404, Message ''User not found'')
      | Some u \<Rightarrow>
          (let currentDate = now env;
               found = sort_by_date (q_past q = Some ''true'')
                         (filter (user_events_query userId q currentDate) (events s))
           in (200, Events (map (populate env) found))))"

text \<open>The \<open>$set\<close> document that \<open>updateEvent\<close> hands to \<open>findByIdAndUpdate\<close>.\<close>

definition update_doc :: "env \<Rightarrow> body \<Rightarrow> event \<Rightarrow> event" where
  "update_doc env b e =
     e\<lparr>name := supplied (req_name b) (name e),
       type := supplied (req_type b) (type e),
       description := supplied (req_description b) (description e),
       date := supplied (req_date b) (date e),
       related_id := supplied (req_related_id b) (related_id e),
       relatedModel := supplied (req_relatedModel b) (relatedModel e),
       time := supplied (req_time b) (time e),
       duration := supplied (req_duration b) (duration e),
       updated_at := now env\<rparr>"

definition updateEvent :: "env \<Rightarrow> oid \<Rightarrow> body \<Rightarrow> store \<Rightarrow> response \<times> store" where
  "updateEvent env i b s =
     (case validate_related env (req_related_id b) (req_relatedModel b) of
        Some r \<Rightarrow> (r, s)
      | None \<Rightarrow>
         (case findByIdAndUpdate i (update_doc env b) (events s) of
            (None, es) \<Rightarrow> ((404, Message ''Event not found''), s\<lparr>events := es\<rparr>)
          | (Some updatedEvent, es) \<Rightarrow> ((200, EventDoc updatedEvent), s\<lparr>events := es\<rparr>)))"

text \<open>The filter of the counterpart query in \<open>cancelMeeting\<close>.\<close>

definition counterpart_query :: "event \<Rightarrow> event \<Rightarrow> bool" where
  "counterpart_query meetingEvent e =
     (type e = Some ''Meeting'' \<and>
      date e = date meetingEvent \<and>
      time e = time meetingEvent \<and>
      related_id e = user_id meetingEvent \<and>
      user_id e = related_id meetingEvent)"

definition cancelMeeting :: "oid \<Rightarrow> store \<Rightarrow> response \<times> store" where
  "cancelMeeting i s =
     (case findById i (events s) of
        None \<Rightarrow> ((404, Message ''Meeting not found''), s)
      | Some meetingEvent \<Rightarrow>
          if type meetingEvent \<noteq> Some ''Meeting'' then ((404, Message ''Meeting not found''), s)
          else
            (let counterpartMeeting = findOne (counterpart_query meetingEvent) (events s);
                 es1 = findByIdAndDelete i (events s);
                 es2 = (case counterpartMeeting of
                          None \<Rightarrow> es1
                        | Some c \<Rightarrow> findByIdAndDelete (doc_id c) es1)
             in ((200, Canceled ''Meeting canceled successfully''
                         (if counterpartMeeting \<noteq> None then 2 else 1)),
                 s\<lparr>events := es2\<rparr>)))"

section \<open>What the specification calls a resolved reference\<close>

text \<open>
  The validator's table of the specification: the collaborator of a recognised kind
  reports a record for the identifier. No other kind has a collaborator.
\<close>

definition related_exists :: "env \<Rightarrow> string \<Rightarrow> oid \<Rightarrow> bool" where
  "related_exists env k r =
     (if k = ''Subject'' then r \<in> subjects env
      else if k = ''Grade'' then r \<in> grades env
      else if k = ''Assignment'' then r \<in> assignments env
      else if k = ''User'' then users env r \<noteq> None
      else False)"

section \<open>Sample data\<close>

text \<open>
  Two users (an advisor with identifier 1, a student with identifier 2), one subject,
  a backend that accepts every write, an empty collection and a meeting request.
\<close>

definition alice :: user where
  "alice = \<lparr>firstName = ''Alice'', lastName = ''Advisor'', email = ''alice@example.org''\<rparr>"

definition sam :: user where
  "sam = \<lparr>firstName = ''Sam'', lastName = ''Student'', email = ''sam@example.org''\<rparr>"

definition env0 :: env where
  "env0 = \<lparr>users = [1 \<mapsto> alice, 2 \<mapsto> sam], subjects = {10}, grades = {}, assignments = {},
            now = 1000, insert_ok = (\<lambda>e. True)\<rparr>"

definition empty_store :: store where
  "empty_store = \<lparr>events = [], next_id = 0\<rparr>"

definition empty_body :: body where
  "empty_body = \<lparr>req_name = None, req_type = None, req_description = None, req_date = None,
     req_user_id = None, req_related_id = None, req_relatedModel = None, req_time = None,
     req_duration = None, req_advisorId = None, req_studentId = None\<rparr>"

definition meeting_body :: body where
  "meeting_body = empty_body\<lparr>req_name := Some ''Advising'', req_date := Some 2000,
     req_time := Some ''14:30'', req_advisorId := Some 1, req_studentId := Some 2\<rparr>"

text \<open>A request to create an assignment event for the student.\<close>

definition create_body :: body where
  "create_body = empty_body\<lparr>req_name := Some ''Essay'', req_type := Some ''Assignment'',
     req_date := Some 3000, req_user_id := Some 2\<rparr>"

text \<open>The same backend, except that it refuses to insert a document owned by user 1.\<close>

definition env_advisor_write_fails :: env where
  "env_advisor_write_fails = env0\<lparr>insert_ok := (\<lambda>e. user_id e \<noteq> Some 1)\<rparr>"

text \<open>
  A collection holding an intact meeting pair (student's record 0, advisor's record 1),
  a past exam and an upcoming assignment of the student.
\<close>

definition student_meeting :: event where
  "student_meeting = \<lparr>doc_id = 0, name = Some ''Advising'', type = Some ''Meeting'',
     description = None, date = Some 2000, user_id = Some 2, related_id = Some 1,
     relatedModel = Some ''User'', created_at = 900, updated_at = 900,
     time = Some ''14:30'', duration = Some 30\<rparr>"

definition advisor_meeting :: event where
  "advisor_meeting = \<lparr>doc_id = 1, name = Some ''Advising'', type = Some ''Meeting'',
     description = None, date = Some 2000, user_id = Some 1, related_id = Some 2,
     relatedModel = Some ''User'', created_at = 900, updated_at = 900,
     time = Some ''14:30'', duration = Some 30\<rparr>"

definition exam_event :: event where
  "exam_event = \<lparr>doc_id = 2, name = Some ''Midterm'', type = Some ''Exam'',
     description = None, date = Some 500, user_id = Some 2, related_id = Some 10,
     relatedModel = Some ''Subject'', created_at = 100, updated_at = 100,
     time = None, duration = None\<rparr>"

definition essay_event :: event where
  "essay_event = \<lparr>doc_id = 3, name = Some ''Essay'', type = Some ''Assignment'',
     description = None, date = Some 1500, user_id = Some 2, related_id = None,
     relatedModel = None, created_at = 950, updated_at = 950,
     time = None, duration = None\<rparr>"

definition sample_store :: store where
  "sample_store = \<lparr>events = [student_meeting, advisor_meeting, exam_event, essay_event],
                    next_id = 4\<rparr>"

text \<open>An update request that sets a reference to subject 10.\<close>

definition subject_ref_body :: body where
  "subject_ref_body = empty_body\<lparr>req_related_id := Some 10, req_relatedModel := Some ''Subject''\<rparr>"

text \<open>An update request that sets a related identifier and nothing else.\<close>

definition unpaired_ref_body :: body where
  "unpaired_ref_body = empty_body\<lparr>req_related_id := Some 77\<rparr>"


text \<open>A meeting request in which advisor and student are the same user.\<close>

definition self_meeting_body :: body where
  "self_meeting_body = meeting_body\<lparr>req_studentId := Some 1\<rparr>"

text \<open>A request to create a Meeting event of user 1 that refers to user 1.\<close>

definition self_event_body :: body where
  "self_event_body = empty_body\<lparr>req_name := Some ''Office hour'', req_type := Some ''Meeting'',
     req_date := Some 2000, req_user_id := Some 1, req_related_id := Some 1,
     req_relatedModel := Some ''User'', req_time := Some ''09:00''\<rparr>"

text \<open>The query string of a plain \<open>GET /events/user/:userId\<close>.\<close>

definition upcoming_query :: query where
  "upcoming_query = \<lparr>q_type = None, q_past = None\<rparr>"

section \<open>Well-formed stores\<close>

text \<open>
  MongoDB keeps \<open>_id\<close> unique within a collection, and a fresh \<open>ObjectId\<close> differs from
  every identifier handed out before.
\<close>

definition wf_store :: "store \<Rightarrow> bool" where
  "wf_store s = (distinct (map doc_id (events s)) \<and> list_all (\<lambda>e. doc_id e < next_id s) (events s))"

lemmas sample_defs = sample_store_def student_meeting_def advisor_meeting_def exam_event_def
  essay_event_def

section \<open>Scheduling a meeting\<close>

text \<open>
  Claim C7. When the advisor or the student of a \<open>scheduleMeeting\<close> request does not
  resolve to a User, the handler answers 404 with "Advisor not found" (advisor missing,
  checked first) or "Student not found" (advisor found, student missing), and the
  store is left exactly as it was: no record is written.
\<close>

theorem scheduleMeeting_missing_user:
  assumes "User_findById env (req_advisorId b) = None \<or> User_findById env (req_studentId b) = None"
  shows "scheduleMeeting env b s =
           ((404, Message (if User_findById env (req_advisorId b) = None
                           then ''Advisor not found'' else ''Student not found'')), s)"
  using assms by (auto simp: scheduleMeeting_def Let_def)

theorem scheduleMeeting_missing_user_witness:
  "scheduleMeeting env0 (meeting_body\<lparr>req_studentId := Some 9\<rparr>) empty_store =
     ((404, Message ''Student not found''), empty_store)"
  using scheduleMeeting_missing_user[of env0 "meeting_body\<lparr>req_studentId := Some 9\<rparr>" empty_store]
  by (simp add: User_findById_def env0_def meeting_body_def empty_body_def)

text \<open>
  Claim C2. For a request whose advisor and student both resolve to Users, whose name
  and date pass the schema's \<open>required\<close> check, and with a backend that accepts the
  writes, \<open>scheduleMeeting\<close> answers 201 with both records and appends exactly these
  two records to the collection: both of type Meeting, with the request's name,
  description, date and time, the duration of the request or 30, \<open>relatedModel = User\<close>,
  and owner and related user swapped between the student's and the advisor's record.
\<close>

theorem scheduleMeeting_creates_pair:
  assumes "User_findById env (req_advisorId b) = Some ua"
    and "User_findById env (req_studentId b) = Some us"
    and "req_name b = Some n" and "n \<noteq> []" and "req_date b = Some d"
    and "\<forall>e. insert_ok env e"
  shows "\<exists>se ae.
           scheduleMeeting env b s =
             ((201, MeetingPair se ae), s\<lparr>events := events s @ [se, ae], next_id := next_id s + 2\<rparr>) \<and>
           doc_id se \<noteq> doc_id ae \<and>
           type se = Some ''Meeting'' \<and> type ae = Some ''Meeting'' \<and>
           name se = req_name b \<and> name ae = req_name b \<and>
           description se = req_description b \<and> description ae = req_description b \<and>
           date se = req_date b \<and> date ae = req_date b \<and>
           time se = req_time b \<and> time ae = req_time b \<and>
           duration se = Some (case req_duration b of None \<Rightarrow> 30 | Some m \<Rightarrow> m) \<and>
           duration ae = duration se \<and>
           user_id se = req_studentId b \<and> related_id se = req_advisorId b \<and>
           user_id ae = req_advisorId b \<and> related_id ae = req_studentId b \<and>
           relatedModel se = Some ''User'' \<and> relatedModel ae = Some ''User''"
proof -
  let ?du = "Some (case req_duration b of None \<Rightarrow> 30 | Some m \<Rightarrow> m)"
  let ?se = "\<lparr>doc_id = next_id s, name = req_name b, type = Some ''Meeting'',
              description = req_description b, date = req_date b,
              user_id = req_studentId b, related_id = req_advisorId b, relatedModel = Some ''User'',
              created_at = now env, updated_at = now env, time = req_time b, duration = ?du\<rparr>"
  let ?ae = "\<lparr>doc_id = Suc (next_id s), name = req_name b, type = Some ''Meeting'',
              description = req_description b, date = req_date b,
              user_id = req_advisorId b, related_id = req_studentId b, relatedModel = Some ''User'',
              created_at = now env, updated_at = now env, time = req_time b, duration = ?du\<rparr>"
  have ids: "req_advisorId b \<noteq> None" "req_studentId b \<noteq> None"
    using assms(1,2) by (auto simp: User_findById_def split: option.splits)
  have v: "validate ?se" "validate ?ae"
    using assms(3,4,5) ids by (simp_all add: validate_def event_types_def related_models_def)
  have ok: "insert_ok env ?se" "insert_ok env ?ae"
    using assms(6) by blast+
  have "scheduleMeeting env b s =
          ((201, MeetingPair ?se ?ae), s\<lparr>events := events s @ [?se, ?ae], next_id := next_id s + 2\<rparr>)"
    using assms(1,2) v ok
    by (simp add: scheduleMeeting_def Let_def new_Event_def save_def)
  then show ?thesis
    by (intro exI[of _ ?se] exI[of _ ?ae]) simp
qed

theorem scheduleMeeting_creates_pair_witness:
  "\<exists>se ae. scheduleMeeting env0 meeting_body empty_store =
             ((201, MeetingPair se ae), \<lparr>events = [se, ae], next_id = 2\<rparr>) \<and>
           user_id se = Some 2 \<and> related_id se = Some 1 \<and>
           user_id ae = Some 1 \<and> related_id ae = Some 2 \<and>
           duration se = Some 30 \<and> duration ae = Some 30"
proof -
  have h1: "User_findById env0 (req_advisorId meeting_body) = Some alice"
    by (simp add: User_findById_def env0_def meeting_body_def empty_body_def)
  have h2: "User_findById env0 (req_studentId meeting_body) = Some sam"
    by (simp add: User_findById_def env0_def meeting_body_def empty_body_def)
  have h3: "req_name meeting_body = Some ''Advising''"
    by (simp add: meeting_body_def empty_body_def)
  have h4: "''Advising'' \<noteq> []" by simp
  have h5: "req_date meeting_body = Some 2000"
    by (simp add: meeting_body_def empty_body_def)
  have h6: "\<forall>e. insert_ok env0 e" by (simp add: env0_def)
  obtain se ae where
    "scheduleMeeting env0 meeting_body empty_store =
       ((201, MeetingPair se ae),
        empty_store\<lparr>events := events empty_store @ [se, ae], next_id := next_id empty_store + 2\<rparr>)"
    "user_id se = req_studentId meeting_body" "related_id se = req_advisorId meeting_body"
    "user_id ae = req_advisorId meeting_body" "related_id ae = req_studentId meeting_body"
    "duration se = Some (case req_duration meeting_body of None \<Rightarrow> 30 | Some m \<Rightarrow> m)"
    "duration ae = duration se"
    using scheduleMeeting_creates_pair[OF h1 h2 h3 h4 h5 h6, of empty_store] by blast
  then show ?thesis
    by (intro exI[of _ se] exI[of _ ae]) (simp add: meeting_body_def empty_body_def empty_store_def)
qed

text \<open>
  Claim C1 as stated does not hold: there is no compensating delete. With a backend
  that refuses the advisor's record only, the handler answers 500 and the student's
  record stays in the collection.
\<close>

theorem scheduleMeeting_partial_failure_counterexample:
  "fst (fst (scheduleMeeting env_advisor_write_fails meeting_body empty_store)) = 500 \<and>
   events (snd (scheduleMeeting env_advisor_write_fails meeting_body empty_store)) =
     [\<lparr>doc_id = 0, name = Some ''Advising'', type = Some ''Meeting'', description = None,
       date = Some 2000, user_id = Some 2, related_id = Some 1, relatedModel = Some ''User'',
       created_at = 1000, updated_at = 1000, time = Some ''14:30'', duration = Some 30\<rparr>]"
  by (simp add: scheduleMeeting_def Let_def new_Event_def save_def validate_def event_types_def
      related_models_def User_findById_def env_advisor_write_fails_def env0_def meeting_body_def
      empty_body_def empty_store_def)

text \<open>
  Claim C1, amended. With advisor and student found, \<open>scheduleMeeting\<close> constructs the
  student's record \<open>se\<close> and the advisor's record \<open>ae\<close> and attempts both writes. It
  answers 201 with both records only if both writes succeeded and 500 otherwise, so a
  partial failure is never reported as success. No compensating delete runs: the
  collection afterwards is the old one followed by exactly those of \<open>se\<close>, \<open>ae\<close> whose
  own write (schema validation, then insertion) succeeded.
\<close>

theorem scheduleMeeting_failed_write_survives:
  assumes "User_findById env (req_advisorId b) \<noteq> None"
    and "User_findById env (req_studentId b) \<noteq> None"
    and "se = \<lparr>doc_id = next_id s, name = req_name b, type = Some ''Meeting'',
               description = req_description b, date = req_date b,
               user_id = req_studentId b, related_id = req_advisorId b,
               relatedModel = Some ''User'', created_at = now env, updated_at = now env,
               time = req_time b,
               duration = Some (case req_duration b of None \<Rightarrow> 30 | Some m \<Rightarrow> m)\<rparr>"
    and "ae = \<lparr>doc_id = Suc (next_id s), name = req_name b, type = Some ''Meeting'',
               description = req_description b, date = req_date b,
               user_id = req_advisorId b, related_id = req_studentId b,
               relatedModel = Some ''User'', created_at = now env, updated_at = now env,
               time = req_time b,
               duration = Some (case req_duration b of None \<Rightarrow> 30 | Some m \<Rightarrow> m)\<rparr>"
  shows "scheduleMeeting env b s =
           ((if validate se \<and> insert_ok env se \<and> validate ae \<and> insert_ok env ae
             then (201, MeetingPair se ae)
             else (500, ErrorMessage ''Error scheduling meeting'')),
            s\<lparr>events := events s @ filter (\<lambda>e. validate e \<and> insert_ok env e) [se, ae],
              next_id := Suc (Suc (next_id s))\<rparr>)"
  using assms(1,2) unfolding assms(3,4)
  by (cases "validate se"; cases "insert_ok env se"; cases "validate ae"; cases "insert_ok env ae";
      simp add: assms(3,4) scheduleMeeting_def Let_def new_Event_def save_def)

theorem scheduleMeeting_failed_write_survives_witness:
  "scheduleMeeting env_advisor_write_fails meeting_body empty_store =
     ((500, ErrorMessage ''Error scheduling meeting''),
      \<lparr>events = [\<lparr>doc_id = 0, name = Some ''Advising'', type = Some ''Meeting'',
                   description = None, date = Some 2000, user_id = Some 2, related_id = Some 1,
                   relatedModel = Some ''User'', created_at = 1000, updated_at = 1000,
                   time = Some ''14:30'', duration = Some 30\<rparr>],
        next_id = 2\<rparr>)"
proof -
  have h1: "User_findById env_advisor_write_fails (req_advisorId meeting_body) \<noteq> None"
    by (simp add: User_findById_def env_advisor_write_fails_def env0_def meeting_body_def empty_body_def)
  have h2: "User_findById env_advisor_write_fails (req_studentId meeting_body) \<noteq> None"
    by (simp add: User_findById_def env_advisor_write_fails_def env0_def meeting_body_def empty_body_def)
  show ?thesis
    using scheduleMeeting_failed_write_survives[OF h1 h2 refl refl, of empty_store]
    by (simp add: validate_def event_types_def related_models_def env_advisor_write_fails_def
        env0_def meeting_body_def empty_body_def empty_store_def)
qed

section \<open>Creating and updating single events\<close>

lemma validate_related_invalid:
  "k \<noteq> [] \<Longrightarrow> k \<notin> set related_models \<Longrightarrow>
   validate_related env (Some r) (Some k) = Some (400, Message ''Invalid related model'')"
  by (simp add: validate_related_def related_models_def)

lemma validate_related_missing:
  assumes "k \<in> set related_models" and "\<not> related_exists env k r"
  shows "validate_related env (Some r) (Some k) = Some (404, Message (k @ '' not found''))"
proof -
  consider "k = ''Subject''" | "k = ''Grade''" | "k = ''Assignment''" | "k = ''User''"
    using assms(1) by (auto simp: related_models_def)
  then show ?thesis
  proof cases
    case 1
    with assms(2) show ?thesis
      by (simp add: validate_related_def related_exists_def not_found_unless_def Subject_findById_def)
  next
    case 2
    with assms(2) show ?thesis
      by (simp add: validate_related_def related_exists_def not_found_unless_def Grade_findById_def)
  next
    case 3
    with assms(2) show ?thesis
      by (simp add: validate_related_def related_exists_def not_found_unless_def Assignment_findById_def)
  next
    case 4
    with assms(2) show ?thesis
      by (simp add: validate_related_def related_exists_def not_found_unless_def User_findById_def)
  qed
qed

text \<open>
  Claim C6 as stated does not hold for the empty kind tag, which is not one of the
  four recognised tags: the guard \<open>related_id && relatedModel\<close> is then falsy, the
  validation block is skipped, and the \<open>enum\<close> check of the schema makes \<open>save()\<close> throw.
  The handler answers 500 "Error creating event", not 400 "Invalid related model".
\<close>

theorem createEvent_empty_kind_counterexample:
  "createEvent env0 (create_body\<lparr>req_related_id := Some 11, req_relatedModel := Some []\<rparr>)
     empty_store =
     ((500, ErrorMessage ''Error creating event''), \<lparr>events = [], next_id = 1\<rparr>)"
  by (simp add: createEvent_def validate_related_def new_Event_def save_def validate_def
      event_types_def related_models_def User_findById_def env0_def create_body_def
      empty_body_def empty_store_def)

text \<open>
  Claim C6, amended. For a create request that supplies a \<open>related_id\<close> and a
  \<open>relatedModel\<close>: a missing owner is answered first, with 404 "User not found". With
  an existing owner, a non-empty kind that is not one of Subject, Grade, Assignment,
  User is answered with 400 "Invalid related model"; a recognised kind whose
  collaborator has no record for the identifier with 404 "<kind> not found"; and the
  empty kind with 500 "Error creating event". In every one of these cases the
  collection of events is unchanged: no event is persisted.
\<close>

theorem createEvent_related_rejected:
  assumes "req_related_id b = Some r" and "req_relatedModel b = Some k"
  shows "(User_findById env (req_user_id b) = None \<longrightarrow>
            createEvent env b s = ((404, Message ''User not found''), s)) \<and>
         (User_findById env (req_user_id b) \<noteq> None \<and> k \<noteq> [] \<and> k \<notin> set related_models \<longrightarrow>
            createEvent env b s = ((400, Message ''Invalid related model''), s)) \<and>
         (User_findById env (req_user_id b) \<noteq> None \<and> k \<in> set related_models \<and>
          \<not> related_exists env k r \<longrightarrow>
            createEvent env b s = ((404, Message (k @ '' not found'')), s)) \<and>
         (User_findById env (req_user_id b) \<noteq> None \<and> k = [] \<longrightarrow>
            createEvent env b s =
              ((500, ErrorMessage ''Error creating event''), s\<lparr>next_id := Suc (next_id s)\<rparr>))"
proof -
  have n: "createEvent env b s = ((404, Message ''User not found''), s)"
    if "User_findById env (req_user_id b) = None"
    using that by (simp add: createEvent_def)
  have a: "createEvent env b s = ((400, Message ''Invalid related model''), s)"
    if "User_findById env (req_user_id b) \<noteq> None" "k \<noteq> []" "k \<notin> set related_models"
    using validate_related_invalid[OF that(2,3), of env r] that(1) assms
    by (auto simp: createEvent_def)
  have c: "createEvent env b s = ((404, Message (k @ '' not found'')), s)"
    if "User_findById env (req_user_id b) \<noteq> None" "k \<in> set related_models"
       "\<not> related_exists env k r"
    using validate_related_missing[OF that(2,3)] that(1) assms
    by (auto simp: createEvent_def)
  have e: "createEvent env b s =
              ((500, ErrorMessage ''Error creating event''), s\<lparr>next_id := Suc (next_id s)\<rparr>)"
    if "User_findById env (req_user_id b) \<noteq> None" "k = []"
    using that assms
    by (auto simp: createEvent_def validate_related_def new_Event_def save_def validate_def
        related_models_def)
  from n a c e show ?thesis by blast
qed

theorem createEvent_related_rejected_witness:
  "createEvent env0 (create_body\<lparr>req_user_id := Some 9, req_related_id := Some 11,
                                 req_relatedModel := Some ''Subject''\<rparr>)
     empty_store = ((404, Message ''User not found''), empty_store) \<and>
   createEvent env0 (create_body\<lparr>req_related_id := Some 11, req_relatedModel := Some ''Course''\<rparr>)
     empty_store = ((400, Message ''Invalid related model''), empty_store) \<and>
   createEvent env0 (create_body\<lparr>req_related_id := Some 11, req_relatedModel := Some ''Subject''\<rparr>)
     empty_store = ((404, Message ''Subject not found''), empty_store) \<and>
   createEvent env0 (create_body\<lparr>req_related_id := Some 11, req_relatedModel := Some []\<rparr>)
     empty_store =
     ((500, ErrorMessage ''Error creating event''), empty_store\<lparr>next_id := Suc (next_id empty_store)\<rparr>)"
proof -
  let ?b0 = "create_body\<lparr>req_user_id := Some 9, req_related_id := Some 11,
                          req_relatedModel := Some ''Subject''\<rparr>"
  let ?b1 = "create_body\<lparr>req_related_id := Some 11, req_relatedModel := Some ''Course''\<rparr>"
  let ?b2 = "create_body\<lparr>req_related_id := Some 11, req_relatedModel := Some ''Subject''\<rparr>"
  let ?b3 = "create_body\<lparr>req_related_id := Some 11, req_relatedModel := Some []\<rparr>"
  have u0: "User_findById env0 (req_user_id ?b0) = None"
    by (simp add: User_findById_def env0_def)
  have u1: "User_findById env0 (req_user_id ?b1) \<noteq> None"
    and u2: "User_findById env0 (req_user_id ?b2) \<noteq> None"
    and u3: "User_findById env0 (req_user_id ?b3) \<noteq> None"
    by (simp_all add: User_findById_def env0_def create_body_def empty_body_def)
  have k1: "''Course'' \<noteq> [] \<and> ''Course'' \<notin> set related_models"
    by (simp add: related_models_def)
  have k2: "''Subject'' \<in> set related_models \<and> \<not> related_exists env0 ''Subject'' 11"
    by (simp add: related_models_def related_exists_def env0_def)
  have r0: "createEvent env0 ?b0 empty_store = ((404, Message ''User not found''), empty_store)"
    using createEvent_related_rejected[where b = ?b0 and r = 11 and k = "''Subject''"
        and env = env0 and s = empty_store] u0 by simp
  have r1: "createEvent env0 ?b1 empty_store = ((400, Message ''Invalid related model''), empty_store)"
    using createEvent_related_rejected[where b = ?b1 and r = 11 and k = "''Course''"
        and env = env0 and s = empty_store] u1 k1 by simp
  have r2: "createEvent env0 ?b2 empty_store = ((404, Message ''Subject not found''), empty_store)"
    using createEvent_related_rejected[where b = ?b2 and r = 11 and k = "''Subject''"
        and env = env0 and s = empty_store] u2 k2 by simp
  have r3: "createEvent env0 ?b3 empty_store =
     ((500, ErrorMessage ''Error creating event''), empty_store\<lparr>next_id := Suc (next_id empty_store)\<rparr>)"
    using createEvent_related_rejected[where b = ?b3 and r = 11 and k = "[]"
        and env = env0 and s = empty_store] u3 by simp
  from r0 r1 r2 r3 show ?thesis by blast
qed

lemma findByIdAndUpdate_map:
  assumes "\<And>e. f (upd e) = f e"
  shows "map f (snd (findByIdAndUpdate i upd es)) = map f es"
  using assms by (induction es) (auto split: prod.splits)

text \<open>
  Claim C10. \<open>updateEvent\<close> never writes the owner: whatever the request body holds
  (a \<open>user_id\<close> included) and whatever the outcome, every stored record keeps its
  identifier and its \<open>user_id\<close>.
\<close>

theorem updateEvent_keeps_owner:
  "map (\<lambda>e. (doc_id e, user_id e)) (events (snd (updateEvent env i b s))) =
   map (\<lambda>e. (doc_id e, user_id e)) (events s)"
proof -
  have m: "map (\<lambda>e. (doc_id e, user_id e)) (snd (findByIdAndUpdate i (update_doc env b) (events s))) =
        map (\<lambda>e. (doc_id e, user_id e)) (events s)"
    by (rule findByIdAndUpdate_map) (simp add: update_doc_def)
  show ?thesis
  proof (cases "validate_related env (req_related_id b) (req_relatedModel b)")
    case None
    then show ?thesis using m
      by (cases "findByIdAndUpdate i (update_doc env b) (events s)")
         (auto simp: updateEvent_def split: option.splits)
  next
    case (Some r)
    then show ?thesis by (simp add: updateEvent_def)
  qed
qed
text \<open>
  Claim C5 as stated does not hold: the validation block runs only when both
  \<open>related_id\<close> and \<open>relatedModel\<close> are supplied. A create request with a \<open>related_id\<close>
  alone (naming no record of any collection) succeeds, and the stored record has a
  \<open>related_id\<close> without a \<open>relatedModel\<close>.
\<close>

theorem createEvent_unpaired_reference_counterexample:
  "createEvent env0 (create_body\<lparr>req_related_id := Some 77\<rparr>) empty_store =
     ((201, EventDoc \<lparr>doc_id = 0, name = Some ''Essay'', type = Some ''Assignment'',
                      description = None, date = Some 3000, user_id = Some 2,
                      related_id = Some 77, relatedModel = None,
                      created_at = 1000, updated_at = 1000, time = None, duration = None\<rparr>),
      \<lparr>events = [\<lparr>doc_id = 0, name = Some ''Essay'', type = Some ''Assignment'',
                  description = None, date = Some 3000, user_id = Some 2,
                  related_id = Some 77, relatedModel = None,
                  created_at = 1000, updated_at = 1000, time = None, duration = None\<rparr>],
       next_id = 1\<rparr>)"
  by (simp add: createEvent_def validate_related_def new_Event_def save_def validate_def
      event_types_def User_findById_def env0_def create_body_def empty_body_def empty_store_def)

lemma not_found_unless_status:
  "not_found_unless ok m = Some (st, js) \<Longrightarrow> st = 404"
  by (auto simp: not_found_unless_def split: if_splits)

lemma validate_related_status:
  assumes "validate_related env rid rm = Some (st, js)"
  shows "st = 400 \<or> st = 404"
proof -
  obtain r m where rm: "rid = Some r" "rm = Some m"
    using assms by (auto simp: validate_related_def split: option.splits)
  have "m \<noteq> []"
    using assms rm by (auto simp: validate_related_def)
  then show ?thesis
    using assms rm not_found_unless_status[of _ m st js]
    unfolding validate_related_def
    by (auto split: if_splits)
qed

lemma validate_related_passed:
  assumes "validate_related env (Some r) (Some k) = None" and "k \<noteq> []"
  shows "k \<in> set related_models \<and> related_exists env k r"
  using assms validate_related_invalid[of k env r] validate_related_missing[of k env r]
  by fastforce

lemma findByIdAndUpdate_Some_D:
  "findByIdAndUpdate i upd es = (Some e', es') \<Longrightarrow> e' \<in> set es' \<and> (\<exists>e \<in> set es. e' = upd e)"
proof (induction es arbitrary: es')
  case Nil
  then show ?case by simp
next
  case (Cons a es)
  show ?case
  proof (cases "doc_id a = i")
    case True
    with Cons.prems show ?thesis by auto
  next
    case False
    with Cons.prems obtain es0 where "findByIdAndUpdate i upd es = (Some e', es0)" "es' = a # es0"
      by (auto split: prod.splits)
    with Cons.IH[of es0] show ?thesis by auto
  qed
qed

lemma validate_related_skipped:
  "rid = None \<or> \<not> truthy rm \<Longrightarrow> validate_related env rid rm = None"
  by (auto simp: validate_related_def truthy_def split: option.splits)

lemma findByIdAndUpdate_found:
  "findById i es = Some e0 \<Longrightarrow>
   fst (findByIdAndUpdate i upd es) = Some (upd e0) \<and> upd e0 \<in> set (snd (findByIdAndUpdate i upd es))"
  by (induction es) (auto simp: findById_def split: prod.splits)

text \<open>
  Claim C5, amended. After a successful create or update whose request supplies both a
  \<open>related_id\<close> and a non-empty \<open>relatedModel\<close>, the stored record carries both, the kind
  is one of Subject, Grade, Assignment, User, and the collaborator of that kind had a
  record for the identifier when the request was validated. When the request lacks
  the \<open>related_id\<close> or a non-empty \<open>relatedModel\<close>, no reference validation runs: create
  (for an existing owner) builds the record \<open>ne\<close> with both fields exactly as the
  request gives them and stores it whenever it passes schema validation and the write
  succeeds; update of an existing record succeeds, sets whichever of the two fields
  the request supplies and leaves the other as stored. So a stored record can have
  one of the two without the other.
\<close>

theorem related_reference_validated:
  assumes "ne = \<lparr>doc_id = next_id s, name = req_name b, type = req_type b,
               description = req_description b, date = req_date b, user_id = req_user_id b,
               related_id = req_related_id b, relatedModel = req_relatedModel b,
               created_at = now env, updated_at = now env,
               time = req_time b, duration = req_duration b\<rparr>"
  shows
  "(createEvent env b s = ((201, EventDoc e), s') \<and>
      req_related_id b = Some r \<and> req_relatedModel b = Some k \<and> k \<noteq> [] \<longrightarrow>
      e \<in> set (events s') \<and> related_id e = Some r \<and> relatedModel e = Some k \<and>
      k \<in> set related_models \<and> related_exists env k r) \<and>
   (updateEvent env i b s = ((200, EventDoc e), s') \<and>
      req_related_id b = Some r \<and> req_relatedModel b = Some k \<and> k \<noteq> [] \<longrightarrow>
      e \<in> set (events s') \<and> related_id e = Some r \<and> relatedModel e = Some k \<and>
      k \<in> set related_models \<and> related_exists env k r) \<and>
   (User_findById env (req_user_id b) \<noteq> None \<and>
      (req_related_id b = None \<or> \<not> truthy (req_relatedModel b)) \<longrightarrow>
      createEvent env b s =
        (if validate ne \<and> insert_ok env ne
         then ((201, EventDoc ne), s\<lparr>events := events s @ [ne], next_id := Suc (next_id s)\<rparr>)
         else ((500, ErrorMessage ''Error creating event''), s\<lparr>next_id := Suc (next_id s)\<rparr>))) \<and>
   (findById i (events s) = Some e0 \<and>
      (req_related_id b = None \<or> \<not> truthy (req_relatedModel b)) \<longrightarrow>
      fst (updateEvent env i b s) = (200, EventDoc (update_doc env b e0)) \<and>
      update_doc env b e0 \<in> set (events (snd (updateEvent env i b s))) \<and>
      related_id (update_doc env b e0) =
        (case req_related_id b of None \<Rightarrow> related_id e0 | Some x \<Rightarrow> Some x) \<and>
      relatedModel (update_doc env b e0) =
        (case req_relatedModel b of None \<Rightarrow> relatedModel e0 | Some m \<Rightarrow> Some m))"
proof -
  have create: "e \<in> set (events s') \<and> related_id e = Some r \<and> relatedModel e = Some k \<and>
      k \<in> set related_models \<and> related_exists env k r"
    if a: "createEvent env b s = ((201, EventDoc e), s') \<and>
      req_related_id b = Some r \<and> req_relatedModel b = Some k \<and> k \<noteq> []"
  proof -
    from a have v: "validate_related env (Some r) (Some k) = None"
      using validate_related_status[of env "Some r" "Some k" 201 "EventDoc e"]
      by (auto simp: createEvent_def split: option.splits)
    have "e \<in> set (events s') \<and> related_id e = Some r \<and> relatedModel e = Some k"
      using a v
      by (auto simp: createEvent_def new_Event_def save_def split: option.splits if_splits)
    with validate_related_passed[OF v] a show ?thesis by simp
  qed
  have update: "e \<in> set (events s') \<and> related_id e = Some r \<and> relatedModel e = Some k \<and>
      k \<in> set related_models \<and> related_exists env k r"
    if a: "updateEvent env i b s = ((200, EventDoc e), s') \<and>
      req_related_id b = Some r \<and> req_relatedModel b = Some k \<and> k \<noteq> []"
  proof -
    from a have v: "validate_related env (Some r) (Some k) = None"
      using validate_related_status[of env "Some r" "Some k" 200 "EventDoc e"]
      by (auto simp: updateEvent_def split: option.splits)
    from a v have u: "findByIdAndUpdate i (update_doc env b) (events s) = (Some e, events s')"
      by (cases "findByIdAndUpdate i (update_doc env b) (events s)")
         (auto simp: updateEvent_def split: option.splits)
    from findByIdAndUpdate_Some_D[OF u] a
    have "e \<in> set (events s') \<and> related_id e = Some r \<and> relatedModel e = Some k"
      by (auto simp: update_doc_def supplied_def)
    with validate_related_passed[OF v] a show ?thesis by simp
  qed
  have create_skip: "createEvent env b s =
        (if validate ne \<and> insert_ok env ne
         then ((201, EventDoc ne), s\<lparr>events := events s @ [ne], next_id := Suc (next_id s)\<rparr>)
         else ((500, ErrorMessage ''Error creating event''), s\<lparr>next_id := Suc (next_id s)\<rparr>))"
    if a: "User_findById env (req_user_id b) \<noteq> None \<and>
      (req_related_id b = None \<or> \<not> truthy (req_relatedModel b))"
  proof -
    from a have v: "validate_related env (req_related_id b) (req_relatedModel b) = None"
      by (simp add: validate_related_skipped)
    from a obtain u where u: "User_findById env (req_user_id b) = Some u" by blast
    show ?thesis
      unfolding assms using u v
      by (simp add: createEvent_def new_Event_def save_def)
  qed
  have update_skip: "fst (updateEvent env i b s) = (200, EventDoc (update_doc env b e0)) \<and>
      update_doc env b e0 \<in> set (events (snd (updateEvent env i b s))) \<and>
      related_id (update_doc env b e0) =
        (case req_related_id b of None \<Rightarrow> related_id e0 | Some x \<Rightarrow> Some x) \<and>
      relatedModel (update_doc env b e0) =
        (case req_relatedModel b of None \<Rightarrow> relatedModel e0 | Some m \<Rightarrow> Some m)"
    if a: "findById i (events s) = Some e0 \<and>
      (req_related_id b = None \<or> \<not> truthy (req_relatedModel b))"
  proof -
    from a have v: "validate_related env (req_related_id b) (req_relatedModel b) = None"
      by (simp add: validate_related_skipped)
    from a have f: "fst (findByIdAndUpdate i (update_doc env b) (events s)) = Some (update_doc env b e0)"
      and m: "update_doc env b e0 \<in> set (snd (findByIdAndUpdate i (update_doc env b) (events s)))"
      using findByIdAndUpdate_found[of i "events s" e0 "update_doc env b"] by simp_all
    have r: "fst (updateEvent env i b s) = (200, EventDoc (update_doc env b e0)) \<and>
      update_doc env b e0 \<in> set (events (snd (updateEvent env i b s)))"
      using v f m
      by (cases "findByIdAndUpdate i (update_doc env b) (events s)") (simp add: updateEvent_def)
    have "related_id (update_doc env b e0) =
        (case req_related_id b of None \<Rightarrow> related_id e0 | Some x \<Rightarrow> Some x) \<and>
      relatedModel (update_doc env b e0) =
        (case req_relatedModel b of None \<Rightarrow> relatedModel e0 | Some m \<Rightarrow> Some m)"
      by (simp add: update_doc_def supplied_def)
    with r show ?thesis by simp
  qed
  from create update create_skip update_skip show ?thesis by blast
qed

theorem related_reference_validated_witness:
  "(\<exists>e s'. createEvent env0 (create_body\<lparr>req_related_id := Some 10, req_relatedModel := Some ''Subject''\<rparr>)
             empty_store = ((201, EventDoc e), s') \<and>
           e \<in> set (events s') \<and> related_id e = Some 10 \<and> relatedModel e = Some ''Subject'' \<and>
           related_exists env0 ''Subject'' 10) \<and>
   (\<exists>e s'. updateEvent env0 3 subject_ref_body sample_store = ((200, EventDoc e), s') \<and>
           e \<in> set (events s') \<and> related_id e = Some 10 \<and> relatedModel e = Some ''Subject'' \<and>
           related_exists env0 ''Subject'' 10) \<and>
   (\<exists>e. createEvent env0 (create_body\<lparr>req_related_id := Some 77\<rparr>) empty_store =
          ((201, EventDoc e), \<lparr>events = [e], next_id = 1\<rparr>) \<and>
        related_id e = Some 77 \<and> relatedModel e = None) \<and>
   (\<exists>e. fst (updateEvent env0 3 unpaired_ref_body sample_store) = (200, EventDoc e) \<and>
        e \<in> set (events (snd (updateEvent env0 3 unpaired_ref_body sample_store))) \<and>
        related_id e = Some 77 \<and> relatedModel e = None)"
proof -
  let ?b = "create_body\<lparr>req_related_id := Some 10, req_relatedModel := Some ''Subject''\<rparr>"
  let ?e = "\<lparr>doc_id = 0, name = Some ''Essay'', type = Some ''Assignment'',
              description = None, date = Some 3000, user_id = Some 2,
              related_id = Some 10, relatedModel = Some ''Subject'',
              created_at = 1000, updated_at = 1000, time = None, duration = None\<rparr>"
  let ?s = "\<lparr>events = [?e], next_id = 1\<rparr>"
  let ?u = "essay_event\<lparr>related_id := Some 10, relatedModel := Some ''Subject'', updated_at := 1000\<rparr>"
  let ?t = "\<lparr>events = [student_meeting, advisor_meeting, exam_event, ?u], next_id = 4\<rparr>"
  let ?c = "create_body\<lparr>req_related_id := Some 77\<rparr>"
  let ?n = "\<lparr>doc_id = next_id empty_store, name = req_name ?c, type = req_type ?c,
               description = req_description ?c, date = req_date ?c, user_id = req_user_id ?c,
               related_id = req_related_id ?c, relatedModel = req_relatedModel ?c,
               created_at = now env0, updated_at = now env0,
               time = req_time ?c, duration = req_duration ?c\<rparr>"
  have c: "createEvent env0 ?b empty_store = ((201, EventDoc ?e), ?s)"
    by (simp add: createEvent_def validate_related_def not_found_unless_def Subject_findById_def
        new_Event_def save_def validate_def event_types_def related_models_def User_findById_def
        env0_def create_body_def empty_body_def empty_store_def)
  have rb: "req_related_id ?b = Some 10 \<and> req_relatedModel ?b = Some ''Subject'' \<and> ''Subject'' \<noteq> []"
    by simp
  have u: "updateEvent env0 3 subject_ref_body sample_store = ((200, EventDoc ?u), ?t)"
    by (simp add: updateEvent_def validate_related_def not_found_unless_def Subject_findById_def
        update_doc_def supplied_def env0_def subject_ref_body_def empty_body_def sample_defs)
  have ru: "req_related_id subject_ref_body = Some 10 \<and>
            req_relatedModel subject_ref_body = Some ''Subject'' \<and> ''Subject'' \<noteq> []"
    by (simp add: subject_ref_body_def)
  note cr = related_reference_validated[where env = env0 and b = ?b and s = empty_store and e = ?e
      and s' = ?s and r = 10 and k = "''Subject''", OF refl,
      THEN conjunct1, rule_format, OF conjI, OF c rb]
  note up = related_reference_validated[where env = env0 and i = 3 and b = subject_ref_body
      and s = sample_store and e = ?u and s' = ?t and r = 10 and k = "''Subject''", OF refl,
      THEN conjunct2, THEN conjunct1, rule_format, OF conjI, OF u ru]
  have o: "User_findById env0 (req_user_id ?c) \<noteq> None \<and>
           (req_related_id ?c = None \<or> \<not> truthy (req_relatedModel ?c))"
    by (simp add: User_findById_def truthy_def env0_def create_body_def empty_body_def)
  note cs = related_reference_validated[where env = env0 and b = ?c and s = empty_store
      and ne = ?n, OF refl,
      THEN conjunct2, THEN conjunct2, THEN conjunct1, rule_format, OF o]
  have vn: "validate ?n \<and> insert_ok env0 ?n"
    by (simp add: validate_def event_types_def env0_def create_body_def empty_body_def)
  have p3: "createEvent env0 ?c empty_store = ((201, EventDoc ?n), \<lparr>events = [?n], next_id = 1\<rparr>) \<and>
            related_id ?n = Some 77 \<and> relatedModel ?n = None"
    using cs vn by (simp add: empty_store_def create_body_def empty_body_def)
  have f: "findById 3 (events sample_store) = Some essay_event \<and>
           (req_related_id unpaired_ref_body = None \<or> \<not> truthy (req_relatedModel unpaired_ref_body))"
    by (simp add: findById_def truthy_def unpaired_ref_body_def empty_body_def sample_defs)
  note us = related_reference_validated[where env = env0 and i = 3 and b = unpaired_ref_body
      and s = sample_store and ?e0.0 = essay_event, OF refl,
      THEN conjunct2, THEN conjunct2, THEN conjunct2, rule_format, OF f]
  have p4: "fst (updateEvent env0 3 unpaired_ref_body sample_store) =
              (200, EventDoc (update_doc env0 unpaired_ref_body essay_event)) \<and>
            update_doc env0 unpaired_ref_body essay_event
              \<in> set (events (snd (updateEvent env0 3 unpaired_ref_body sample_store))) \<and>
            related_id (update_doc env0 unpaired_ref_body essay_event) = Some 77 \<and>
            relatedModel (update_doc env0 unpaired_ref_body essay_event) = None"
    using us by (simp add: unpaired_ref_body_def empty_body_def essay_event_def)
  from c cr have p1: "\<exists>e s'. createEvent env0 ?b empty_store = ((201, EventDoc e), s') \<and>
           e \<in> set (events s') \<and> related_id e = Some 10 \<and> relatedModel e = Some ''Subject'' \<and>
           related_exists env0 ''Subject'' 10"
    by blast
  from u up have p2: "\<exists>e s'. updateEvent env0 3 subject_ref_body sample_store = ((200, EventDoc e), s') \<and>
           e \<in> set (events s') \<and> related_id e = Some 10 \<and> relatedModel e = Some ''Subject'' \<and>
           related_exists env0 ''Subject'' 10"
    by blast
  from p3 have p3': "\<exists>e. createEvent env0 ?c empty_store =
          ((201, EventDoc e), \<lparr>events = [e], next_id = 1\<rparr>) \<and>
        related_id e = Some 77 \<and> relatedModel e = None"
    by (intro exI[of _ ?n])
  from p4 have p4': "\<exists>e. fst (updateEvent env0 3 unpaired_ref_body sample_store) = (200, EventDoc e) \<and>
        e \<in> set (events (snd (updateEvent env0 3 unpaired_ref_body sample_store))) \<and>
        related_id e = Some 77 \<and> relatedModel e = None"
    by (intro exI[of _ "update_doc env0 unpaired_ref_body essay_event"])
  from p1 p2 p3' p4' show ?thesis by (intro conjI)
qed

section \<open>Listing a user's events\<close>

lemma doc_populate: "map doc (map (populate env) es) = es"
  by (induction es) (simp_all add: populate_def)

lemma mset_sort_by_date: "mset (sort_by_date d es) = mset es"
  by (simp add: sort_by_date_def)

lemma sorted_sort_by_date:
  "(if d then sorted (rev (map date (sort_by_date d es))) else sorted (map date (sort_by_date d es)))"
  by (simp add: sort_by_date_def rev_map)

lemma user_events_query_iff:
  "user_events_query userId q cur e \<longleftrightarrow>
     user_id e = Some userId \<and>
     (truthy (q_type q) \<longrightarrow> type e = q_type q) \<and>
     (\<exists>d. date e = Some d \<and> (if q_past q = Some ''true'' then d < cur else cur \<le> d))"
  by (cases "date e") (auto simp: user_events_query_def)

text \<open>
  Claim C8. For an existing user, \<open>getUserEvents\<close> answers 200 with exactly the stored
  records whose owner is that user, whose type is the requested one when a type is
  given, and whose date lies before now when \<open>past\<close> is \<open>'true'\<close> and at or after now
  otherwise; the list is in descending order of date in the first case and in
  ascending order in the second.
\<close>

theorem getUserEvents_filter_sort:
  assumes "users env userId = Some u"
  shows "\<exists>items.
           getUserEvents env userId q s = (200, Events items) \<and>
           mset (map doc items) =
             mset (filter (\<lambda>e. user_id e = Some userId \<and>
                               (truthy (q_type q) \<longrightarrow> type e = q_type q) \<and>
                               (\<exists>d. date e = Some d \<and>
                                    (if q_past q = Some ''true'' then d < now env else now env \<le> d)))
                          (events s)) \<and>
           (if q_past q = Some ''true''
            then sorted (rev (map date (map doc items)))
            else sorted (map date (map doc items)))"
proof -
  let ?found = "sort_by_date (q_past q = Some ''true'')
                  (filter (user_events_query userId q (now env)) (events s))"
  have r: "getUserEvents env userId q s = (200, Events (map (populate env) ?found))"
    using assms by (simp add: getUserEvents_def User_findById_def Let_def)
  have m: "mset (map doc (map (populate env) ?found)) =
           mset (filter (\<lambda>e. user_id e = Some userId \<and>
                               (truthy (q_type q) \<longrightarrow> type e = q_type q) \<and>
                               (\<exists>d. date e = Some d \<and>
                                    (if q_past q = Some ''true'' then d < now env else now env \<le> d)))
                          (events s))"
    unfolding doc_populate mset_sort_by_date
    by (simp add: user_events_query_iff)
  have o: "(if q_past q = Some ''true''
            then sorted (rev (map date (map doc (map (populate env) ?found))))
            else sorted (map date (map doc (map (populate env) ?found))))"
    unfolding doc_populate by (rule sorted_sort_by_date)
  from r m o show ?thesis by blast
qed

theorem getUserEvents_filter_sort_witness:
  "users env0 2 = Some sam \<and>
   (\<exists>items.
      getUserEvents env0 2 upcoming_query sample_store = (200, Events items) \<and>
      mset (map doc items) =
        mset (filter (\<lambda>e. user_id e = Some 2 \<and>
                          (truthy (q_type upcoming_query) \<longrightarrow> type e = q_type upcoming_query) \<and>
                          (\<exists>d. date e = Some d \<and>
                               (if q_past upcoming_query = Some ''true''
                                then d < now env0 else now env0 \<le> d)))
                     (events sample_store)) \<and>
      (if q_past upcoming_query = Some ''true''
       then sorted (rev (map date (map doc items)))
       else sorted (map date (map doc items))))"
proof -
  have h: "users env0 2 = Some sam"
    by (simp add: env0_def)
  from h getUserEvents_filter_sort[OF h, of upcoming_query sample_store]
  show ?thesis by blast
qed

text \<open>On the sample collection: the upcoming events of the student, then the past ones.\<close>

lemma getUserEvents_upcoming_example:
  "getUserEvents env0 2 upcoming_query sample_store =
     (200, Events [populate env0 essay_event, populate env0 student_meeting]) \<and>
   getUserEvents env0 2 (upcoming_query\<lparr>q_past := Some ''true''\<rparr>) sample_store =
     (200, Events [populate env0 exam_event])"
  by (simp add: getUserEvents_def User_findById_def Let_def sort_by_date_def user_events_query_def
      truthy_def upcoming_query_def env0_def sample_defs)

section \<open>Cancelling a meeting\<close>

lemma findById_None_iff: "findById i es = None \<longleftrightarrow> i \<notin> doc_id ` set es"
  by (auto simp: findById_def find_None_iff)

lemma findById_Some_D: "findById i es = Some m \<Longrightarrow> m \<in> set es \<and> doc_id m = i"
  by (auto simp: findById_def find_Some_iff)

lemma ids_findByIdAndDelete_subset:
  "doc_id ` set (findByIdAndDelete i es) \<subseteq> doc_id ` set es"
  by (induction es) auto

lemma ids_findByIdAndDelete:
  "distinct (map doc_id es) \<Longrightarrow> doc_id ` set (findByIdAndDelete i es) = doc_id ` set es - {i}"
proof (induction es)
  case Nil
  then show ?case by simp
next
  case (Cons e es)
  show ?case
  proof (cases "doc_id e = i")
    case True
    with Cons.prems show ?thesis by force
  next
    case False
    with Cons show ?thesis by auto
  qed
qed

lemma distinct_findByIdAndDelete:
  "distinct (map doc_id es) \<Longrightarrow> distinct (map doc_id (findByIdAndDelete i es))"
proof (induction es)
  case Nil
  then show ?case by simp
next
  case (Cons e es)
  then show ?case
    using ids_findByIdAndDelete_subset[of i es] by auto
qed

lemma cancelMeeting_200_D:
  assumes "fst (fst (cancelMeeting i s)) = 200"
  obtains m where "findById i (events s) = Some m" and "type m = Some ''Meeting''"
    and "events (snd (cancelMeeting i s)) =
           (case findOne (counterpart_query m) (events s) of
              None \<Rightarrow> findByIdAndDelete i (events s)
            | Some c \<Rightarrow> findByIdAndDelete (doc_id c) (findByIdAndDelete i (events s)))"
  using assms
  by (cases "findById i (events s)")
     (auto simp: cancelMeeting_def Let_def split: if_splits option.splits)

lemma cancelMeeting_absent:
  "findById i (events s) = None \<Longrightarrow>
   cancelMeeting i s = ((404, Message ''Meeting not found''), s)"
  by (simp add: cancelMeeting_def)

text \<open>
  Claim C4. When the identifier names no stored record, or a record whose type is not
  Meeting, \<open>cancelMeeting\<close> answers 404 "Meeting not found" and leaves the store as it
  was. In a collection with unique identifiers, a second \<open>cancelMeeting\<close> after a
  successful one therefore answers 404 again, for the identifier that was cancelled
  and for the identifier of the counterpart that was removed with it.
\<close>

theorem cancelMeeting_not_found:
  "((case findById i (events s) of None \<Rightarrow> True | Some m \<Rightarrow> type m \<noteq> Some ''Meeting'') \<longrightarrow>
      cancelMeeting i s = ((404, Message ''Meeting not found''), s)) \<and>
   (distinct (map doc_id (events s)) \<and> fst (fst (cancelMeeting i s)) = 200 \<longrightarrow>
      cancelMeeting i (snd (cancelMeeting i s)) =
        ((404, Message ''Meeting not found''), snd (cancelMeeting i s)) \<and>
      (\<forall>m c. findById i (events s) = Some m \<and>
             findOne (counterpart_query m) (events s) = Some c \<longrightarrow>
             cancelMeeting (doc_id c) (snd (cancelMeeting i s)) =
               ((404, Message ''Meeting not found''), snd (cancelMeeting i s))))"
proof (intro conjI impI allI)
  assume "case findById i (events s) of None \<Rightarrow> True | Some m \<Rightarrow> type m \<noteq> Some ''Meeting''"
  then show "cancelMeeting i s = ((404, Message ''Meeting not found''), s)"
    by (simp add: cancelMeeting_def split: option.splits)
next
  assume a: "distinct (map doc_id (events s)) \<and> fst (fst (cancelMeeting i s)) = 200"
  let ?s' = "snd (cancelMeeting i s)"
  from a obtain m where m: "findById i (events s) = Some m"
    and ev: "events ?s' =
           (case findOne (counterpart_query m) (events s) of
              None \<Rightarrow> findByIdAndDelete i (events s)
            | Some c \<Rightarrow> findByIdAndDelete (doc_id c) (findByIdAndDelete i (events s)))"
    by (blast elim: cancelMeeting_200_D)
  have d1: "i \<notin> doc_id ` set (findByIdAndDelete i (events s))"
    using a ids_findByIdAndDelete[of "events s" i] by simp
  have "i \<notin> doc_id ` set (events ?s')"
    using d1 ev ids_findByIdAndDelete_subset[of _ "findByIdAndDelete i (events s)"]
    by (auto split: option.splits)
  then show "cancelMeeting i ?s' = ((404, Message ''Meeting not found''), ?s')"
    by (simp add: cancelMeeting_absent findById_None_iff)
  fix m' c
  assume b: "findById i (events s) = Some m' \<and> findOne (counterpart_query m') (events s) = Some c"
  with m have c: "findOne (counterpart_query m) (events s) = Some c" by simp
  have "distinct (map doc_id (findByIdAndDelete i (events s)))"
    using a distinct_findByIdAndDelete by blast
  then have "doc_id c \<notin> doc_id ` set (events ?s')"
    using ev c ids_findByIdAndDelete[of "findByIdAndDelete i (events s)" "doc_id c"] by simp
  then show "cancelMeeting (doc_id c) ?s' = ((404, Message ''Meeting not found''), ?s')"
    by (simp add: cancelMeeting_absent findById_None_iff)
qed


theorem cancelMeeting_not_found_witness:
  "cancelMeeting 7 sample_store = ((404, Message ''Meeting not found''), sample_store) \<and>
   cancelMeeting 2 sample_store = ((404, Message ''Meeting not found''), sample_store) \<and>
   cancelMeeting 0 (snd (cancelMeeting 0 sample_store)) =
     ((404, Message ''Meeting not found''), snd (cancelMeeting 0 sample_store)) \<and>
   cancelMeeting 1 (snd (cancelMeeting 0 sample_store)) =
     ((404, Message ''Meeting not found''), snd (cancelMeeting 0 sample_store))"
proof -
  have a7: "findById 7 (events sample_store) = None"
    by (simp add: findById_def sample_defs)
  have a2: "findById 2 (events sample_store) = Some exam_event"
    by (simp add: findById_def sample_defs)
  have t2: "type exam_event \<noteq> Some ''Meeting''"
    by (simp add: exam_event_def)
  have d: "distinct (map doc_id (events sample_store))"
    by (simp add: sample_defs)
  have a0: "findById 0 (events sample_store) = Some student_meeting"
    by (simp add: findById_def sample_defs)
  have c0: "findOne (counterpart_query student_meeting) (events sample_store) = Some advisor_meeting"
    by (simp add: findOne_def counterpart_query_def sample_defs)
  have ok: "fst (fst (cancelMeeting 0 sample_store)) = 200"
    using a0 by (simp add: cancelMeeting_def Let_def student_meeting_def)
  have i1: "doc_id advisor_meeting = 1"
    by (simp add: advisor_meeting_def)
  note nf7 = cancelMeeting_not_found[of 7 sample_store, THEN conjunct1, rule_format]
  note nf2 = cancelMeeting_not_found[of 2 sample_store, THEN conjunct1, rule_format]
  note again = cancelMeeting_not_found[of 0 sample_store, THEN conjunct2, rule_format, OF conjI, OF d ok]
  have r7: "cancelMeeting 7 sample_store = ((404, Message ''Meeting not found''), sample_store)"
    by (rule nf7) (simp add: a7)
  have r2: "cancelMeeting 2 sample_store = ((404, Message ''Meeting not found''), sample_store)"
    by (rule nf2) (simp add: a2 t2)
  have r0: "cancelMeeting 0 (snd (cancelMeeting 0 sample_store)) =
     ((404, Message ''Meeting not found''), snd (cancelMeeting 0 sample_store))"
    by (rule again[THEN conjunct1])
  have r1: "cancelMeeting (doc_id advisor_meeting) (snd (cancelMeeting 0 sample_store)) =
     ((404, Message ''Meeting not found''), snd (cancelMeeting 0 sample_store))"
    by (rule again[THEN conjunct2, rule_format, OF conjI, OF a0 c0])
  from r7 r2 r0 r1 i1 show ?thesis by simp
qed

text \<open>
  How many records a successful \<open>cancelMeeting\<close> removes, next to the count it reports:
  one and 1 when the counterpart query finds nothing, two and 2 when it finds another
  record, but one and 2 when the record it finds is the primary record itself.
\<close>

lemma length_findByIdAndDelete:
  "i \<in> doc_id ` set es \<Longrightarrow> Suc (length (findByIdAndDelete i es)) = length es"
  by (induction es) auto

lemma other_id_kept:
  "j \<noteq> i \<Longrightarrow> j \<in> doc_id ` set es \<Longrightarrow> j \<in> doc_id ` set (findByIdAndDelete i es)"
  by (induction es) auto

lemma findByIdAndDelete_absent:
  "i \<notin> doc_id ` set es \<Longrightarrow> findByIdAndDelete i es = es"
  by (induction es) auto

lemma findOne_Some_D: "findOne flt es = Some c \<Longrightarrow> c \<in> set es \<and> flt c"
  by (auto simp: findOne_def find_Some_iff)

lemma cancelMeeting_no_counterpart:
  assumes "findById i (events s) = Some m" and "type m = Some ''Meeting''"
    and "findOne (counterpart_query m) (events s) = None"
  shows "fst (cancelMeeting i s) = (200, Canceled ''Meeting canceled successfully'' 1) \<and>
         Suc (length (events (snd (cancelMeeting i s)))) = length (events s)"
proof -
  have "i \<in> doc_id ` set (events s)"
    using findById_Some_D[OF assms(1)] by blast
  then show ?thesis
    using assms by (simp add: cancelMeeting_def Let_def length_findByIdAndDelete)
qed

lemma cancelMeeting_other_counterpart:
  assumes "findById i (events s) = Some m" and "type m = Some ''Meeting''"
    and "findOne (counterpart_query m) (events s) = Some c" and "doc_id c \<noteq> i"
  shows "fst (cancelMeeting i s) = (200, Canceled ''Meeting canceled successfully'' 2) \<and>
         Suc (Suc (length (events (snd (cancelMeeting i s))))) = length (events s)"
proof -
  have i: "i \<in> doc_id ` set (events s)"
    using findById_Some_D[OF assms(1)] by blast
  have "doc_id c \<in> doc_id ` set (events s)"
    using findOne_Some_D[OF assms(3)] by blast
  then have c: "doc_id c \<in> doc_id ` set (findByIdAndDelete i (events s))"
    using assms(4) other_id_kept[of "doc_id c" i "events s"] by simp
  show ?thesis
    using assms(1-3) length_findByIdAndDelete[OF i] length_findByIdAndDelete[OF c]
    by (simp add: cancelMeeting_def Let_def)
qed

lemma cancelMeeting_self_counterpart:
  assumes "findById i (events s) = Some m" and "type m = Some ''Meeting''"
    and "findOne (counterpart_query m) (events s) = Some c" and "doc_id c = i"
    and "distinct (map doc_id (events s))"
  shows "fst (cancelMeeting i s) = (200, Canceled ''Meeting canceled successfully'' 2) \<and>
         Suc (length (events (snd (cancelMeeting i s)))) = length (events s)"
proof -
  have i: "i \<in> doc_id ` set (events s)"
    using findById_Some_D[OF assms(1)] by blast
  have "i \<notin> doc_id ` set (findByIdAndDelete i (events s))"
    using ids_findByIdAndDelete[OF assms(5), of i] by simp
  then have "findByIdAndDelete i (findByIdAndDelete i (events s)) = findByIdAndDelete i (events s)"
    by (rule findByIdAndDelete_absent)
  then show ?thesis
    using assms(1-4) length_findByIdAndDelete[OF i]
    by (simp add: cancelMeeting_def Let_def)
qed

text \<open>
  Claim C3 fails for a meeting that a user schedules with themselves (advisor and
  student are the same user, which \<open>scheduleMeeting\<close> accepts). Both records of the pair
  match the counterpart query of either one, so cancelling the first record finds
  that record itself: it is deleted twice, the second record stays in the collection,
  and the response still reports \<open>canceledEvents = 2\<close>. The same happens to a single
  Meeting record whose owner is also its related user: one record is removed, two are
  reported.
\<close>

theorem cancelMeeting_self_pair_miscount:
  "length (events (snd (scheduleMeeting env0 self_meeting_body empty_store))) = 2 \<and>
   cancelMeeting 0 (snd (scheduleMeeting env0 self_meeting_body empty_store)) =
     ((200, Canceled ''Meeting canceled successfully'' 2),
      \<lparr>events = [\<lparr>doc_id = 1, name = Some ''Advising'', type = Some ''Meeting'',
                   description = None, date = Some 2000, user_id = Some 1, related_id = Some 1,
                   relatedModel = Some ''User'', created_at = 1000, updated_at = 1000,
                   time = Some ''14:30'', duration = Some 30\<rparr>],
        next_id = 2\<rparr>) \<and>
   length (events (snd (createEvent env0 self_event_body empty_store))) = 1 \<and>
   cancelMeeting 0 (snd (createEvent env0 self_event_body empty_store)) =
     ((200, Canceled ''Meeting canceled successfully'' 2), \<lparr>events = [], next_id = 1\<rparr>)"
proof -
  have pair: "snd (scheduleMeeting env0 self_meeting_body empty_store) =
      \<lparr>events = [\<lparr>doc_id = 0, name = Some ''Advising'', type = Some ''Meeting'',
                   description = None, date = Some 2000, user_id = Some 1, related_id = Some 1,
                   relatedModel = Some ''User'', created_at = 1000, updated_at = 1000,
                   time = Some ''14:30'', duration = Some 30\<rparr>,
                 \<lparr>doc_id = 1, name = Some ''Advising'', type = Some ''Meeting'',
                   description = None, date = Some 2000, user_id = Some 1, related_id = Some 1,
                   relatedModel = Some ''User'', created_at = 1000, updated_at = 1000,
                   time = Some ''14:30'', duration = Some 30\<rparr>],
        next_id = 2\<rparr>"
    by (simp add: scheduleMeeting_def Let_def new_Event_def save_def validate_def event_types_def
        related_models_def User_findById_def env0_def self_meeting_body_def meeting_body_def
        empty_body_def empty_store_def)
  have single: "snd (createEvent env0 self_event_body empty_store) =
      \<lparr>events = [\<lparr>doc_id = 0, name = Some ''Office hour'', type = Some ''Meeting'',
                   description = None, date = Some 2000, user_id = Some 1, related_id = Some 1,
                   relatedModel = Some ''User'', created_at = 1000, updated_at = 1000,
                   time = Some ''09:00'', duration = None\<rparr>],
        next_id = 1\<rparr>"
    by (simp add: createEvent_def validate_related_def not_found_unless_def new_Event_def save_def
        validate_def event_types_def related_models_def User_findById_def env0_def
        self_event_body_def empty_body_def empty_store_def)
  show ?thesis
    unfolding pair single
    by (simp add: cancelMeeting_def findById_def findOne_def counterpart_query_def Let_def)
qed


section \<open>Every handler keeps the store well-formed\<close>

lemma wf_store_empty: "wf_store empty_store"
  by (simp add: wf_store_def empty_store_def)

lemma wf_store_fresh: "wf_store s \<Longrightarrow> wf_store (s\<lparr>next_id := Suc (next_id s)\<rparr>)"
  by (auto simp: wf_store_def list_all_iff less_Suc_eq)

lemma wf_store_save:
  assumes "wf_store s" and "doc_id e < next_id s" and "doc_id e \<notin> doc_id ` set (events s)"
  shows "wf_store (snd (save env e s))"
  using assms by (auto simp: save_def wf_store_def list_all_iff)

lemma events_save: "set (events (snd (save env e s))) \<subseteq> insert e (set (events s))"
  by (auto simp: save_def)

lemma next_id_save: "next_id (snd (save env e s)) = next_id s"
  by (simp add: save_def)

lemma wf_store_ids_below: "wf_store s \<Longrightarrow> e \<in> set (events s) \<Longrightarrow> doc_id e < next_id s"
  by (simp add: wf_store_def list_all_iff)

lemma createEvent_wf:
  assumes "wf_store s"
  shows "wf_store (snd (createEvent env b s))"
proof (cases "User_findById env (req_user_id b)")
  case None
  with assms show ?thesis by (simp add: createEvent_def)
next
  case (Some u)
  show ?thesis
  proof (cases "validate_related env (req_related_id b) (req_relatedModel b)")
    case (Some r)
    with \<open>User_findById env (req_user_id b) = Some u\<close> assms show ?thesis
      by (simp add: createEvent_def)
  next
    case None
    let ?s1 = "s\<lparr>next_id := Suc (next_id s)\<rparr>"
    let ?e = "fst (new_Event env s (req_name b) (req_type b) (req_description b) (req_date b)
                     (req_user_id b) (req_related_id b) (req_relatedModel b)
                     (req_time b) (req_duration b))"
    have id: "doc_id ?e = next_id s"
      by (simp add: new_Event_def)
    have "doc_id ?e \<notin> doc_id ` set (events ?s1)"
      using wf_store_ids_below[OF assms] id by fastforce
    then have "wf_store (snd (save env ?e ?s1))"
      using wf_store_save[OF wf_store_fresh[OF assms], of ?e env] id by simp
    then show ?thesis
      using None \<open>User_findById env (req_user_id b) = Some u\<close>
      by (cases "save env ?e ?s1"; cases "fst (save env ?e ?s1)")
         (auto simp: createEvent_def new_Event_def)
  qed
qed

lemma scheduleMeeting_wf:
  assumes "wf_store s"
  shows "wf_store (snd (scheduleMeeting env b s))"
proof (cases "User_findById env (req_advisorId b) = None \<or> User_findById env (req_studentId b) = None")
  case True
  with assms show ?thesis by (auto simp: scheduleMeeting_def Let_def)
next
  case False
  let ?du = "Some (case req_duration b of None \<Rightarrow> 30 | Some m \<Rightarrow> m)"
  let ?n1 = "new_Event env s (req_name b) (Some ''Meeting'') (req_description b) (req_date b)
               (req_studentId b) (req_advisorId b) (Some ''User'') (req_time b) ?du"
  let ?n2 = "new_Event env (snd ?n1) (req_name b) (Some ''Meeting'') (req_description b) (req_date b)
               (req_advisorId b) (req_studentId b) (Some ''User'') (req_time b) ?du"
  let ?s3 = "snd (save env (fst ?n1) (snd ?n2))"
  let ?s4 = "snd (save env (fst ?n2) ?s3)"
  have s2: "snd ?n2 = s\<lparr>next_id := Suc (Suc (next_id s))\<rparr>"
    by (simp add: new_Event_def)
  have w2: "wf_store (snd ?n2)"
    using wf_store_fresh[OF wf_store_fresh[OF assms]] by (simp add: s2)
  have id1: "doc_id (fst ?n1) = next_id s" and id2: "doc_id (fst ?n2) = Suc (next_id s)"
    by (simp_all add: new_Event_def)
  have below: "\<forall>e \<in> set (events s). doc_id e < next_id s"
    using wf_store_ids_below[OF assms] by blast
  have f1: "doc_id (fst ?n1) \<notin> doc_id ` set (events (snd ?n2))"
    using below id1 by (fastforce simp: s2)
  have w3: "wf_store ?s3"
    using wf_store_save[OF w2, of "fst ?n1" env] f1 id1 by (simp add: s2)
  have "set (events ?s3) \<subseteq> insert (fst ?n1) (set (events s))"
    using events_save[of env "fst ?n1" "snd ?n2"] by (simp add: s2)
  then have f2: "doc_id (fst ?n2) \<notin> doc_id ` set (events ?s3)"
    using below id1 id2 by fastforce
  have "wf_store ?s4"
    using wf_store_save[OF w3, of "fst ?n2" env] f2 id2 by (simp add: next_id_save s2)
  moreover have "snd (scheduleMeeting env b s) = ?s4"
    using False
    by (cases "fst (save env (fst ?n1) (snd ?n2))"; cases "fst (save env (fst ?n2) ?s3)")
       (auto simp: scheduleMeeting_def Let_def split: prod.splits)
  ultimately show ?thesis by simp
qed

lemma findByIdAndUpdate_length:
  "length (snd (findByIdAndUpdate i upd es)) = length es"
  by (induction es) (auto split: prod.splits)

lemma updateEvent_wf:
  assumes "wf_store s"
  shows "wf_store (snd (updateEvent env i b s))"
proof (cases "validate_related env (req_related_id b) (req_relatedModel b)")
  case (Some r)
  with assms show ?thesis by (simp add: updateEvent_def)
next
  case None
  have m: "map doc_id (snd (findByIdAndUpdate i (update_doc env b) (events s))) = map doc_id (events s)"
    by (rule findByIdAndUpdate_map) (simp add: update_doc_def)
  have s: "snd (updateEvent env i b s) =
           s\<lparr>events := snd (findByIdAndUpdate i (update_doc env b) (events s))\<rparr>"
    using None
    by (cases "findByIdAndUpdate i (update_doc env b) (events s)")
       (auto simp: updateEvent_def split: option.splits)
  have la: "list_all (\<lambda>e. doc_id e < next_id s) es \<longleftrightarrow> (\<forall>n \<in> set (map doc_id es). n < next_id s)" for es
    by (simp add: list_all_iff)
  have "list_all (\<lambda>e. doc_id e < next_id s) (snd (findByIdAndUpdate i (update_doc env b) (events s)))"
    using assms unfolding la m wf_store_def by simp
  with assms m show ?thesis
    unfolding s wf_store_def by simp
qed

lemma cancelMeeting_wf:
  assumes "wf_store s"
  shows "wf_store (snd (cancelMeeting i s))"
proof -
  have keep: "wf_store (s\<lparr>events := findByIdAndDelete j (events s)\<rparr>)" if "wf_store s" for j s
    using that ids_findByIdAndDelete_subset[of j "events s"] distinct_findByIdAndDelete[of "events s" j]
    by (auto simp: wf_store_def list_all_iff dest: ids_findByIdAndDelete[of "events s" j])
  have "snd (cancelMeeting i s) = s \<or>
        snd (cancelMeeting i s) = s\<lparr>events := findByIdAndDelete i (events s)\<rparr> \<or>
        (\<exists>j. snd (cancelMeeting i s) =
              s\<lparr>events := findByIdAndDelete j (findByIdAndDelete i (events s))\<rparr>)"
    by (auto simp: cancelMeeting_def Let_def split: option.splits)
  then show ?thesis
    using keep[OF assms, of i] keep[OF keep[OF assms, of i]] assms by auto
qed

end
